theory Spec2Isabelle
  imports Main "HOL-Library.Word"
begin

unbundle bit_operations_syntax

section \<open>Machine types of the sketch\<close>

text \<open>
  The sketch \<^verbatim>\<open>esp8266_artnet_dmx512.ino\<close> runs on an ESP8266, where \<^verbatim>\<open>int\<close>,
  \<^verbatim>\<open>long\<close> and \<^verbatim>\<open>unsigned long\<close> are 32 bits wide. A word is read unsigned by
  \<open>uint\<close>/\<open>unat\<close> and as two's complement by \<open>sint\<close>; the order \<open><\<close> on words
  is the unsigned one.
\<close>

type_synonym uint8_t = "8 word"
type_synonym uint16_t = "16 word"
type_synonym c_int = "32 word"
type_synonym c_ulong = "32 word"

text \<open>\<^verbatim>\<open>#define MIN(x,y) (x<y ? x : y)\<close>, on operands already promoted to \<^verbatim>\<open>int\<close>.\<close>

definition MIN_macro :: "int \<Rightarrow> int \<Rightarrow> int" where
  "MIN_macro x y = (if x < y then x else y)"

text \<open>
  Modelled from the spec: the macro \<^verbatim>\<open>DMX_CHANNELS\<close> is defined in \<^verbatim>\<open>i2s_dmx.h\<close>, which
  is not among the sources. The spec gives the maximum channel count as 512 (``always sends
  the full 512/maximum channel count''), and the frame layout comment above \<^verbatim>\<open>debugI2S\<close>
  ends at the ``512th value''.
\<close>

definition DMX_CHANNELS :: nat where
  "DMX_CHANNELS = 512"

text \<open>
  Modelled from the spec: \<^verbatim>\<open>struct Config\<close> is declared in a header that is not among the
  sources. The spec lists its fields \<^verbatim>\<open>universe\<close>, \<^verbatim>\<open>channels\<close> and \<^verbatim>\<open>delay\<close> as
  integers; they are taken as C \<^verbatim>\<open>int\<close>.
\<close>

record Config =
  universe_cfg :: c_int
  channels :: c_int
  delay :: c_int

text \<open>
  Modelled from the spec: the type \<^verbatim>\<open>i2s_packet\<close> is declared in \<^verbatim>\<open>i2s_dmx.h\<close>, which is
  not among the sources. The spec describes a fixed-size sequence of 16-bit symbols: a
  mark-before-break region, one mark-after-break symbol and the channel symbols. The fields
  \<^verbatim>\<open>mark_before_break\<close>, \<^verbatim>\<open>mark_after_break\<close> and \<^verbatim>\<open>dmx_bytes\<close> are the ones that
  \<^verbatim>\<open>initI2S\<close> and \<^verbatim>\<open>onDmxPacket\<close> name; \<^verbatim>\<open>initI2S\<close> writes
  \<^verbatim>\<open>dmx_bytes[DMX_CHANNELS]\<close>, so that array has \<^verbatim>\<open>DMX_CHANNELS + 1\<close> entries (the
  null start byte at index 0, then the channels). The frame layout comment above
  \<^verbatim>\<open>debugI2S\<close> shows all-zero words between the mark before break and the mark after
  break; they are the field \<open>space_for_break\<close>, which no function of the sketch names and
  which only the \<^verbatim>\<open>memset\<close> of the whole struct writes.
\<close>

record i2s_packet =
  mark_before_break :: "uint16_t list"
  space_for_break :: "uint16_t list"
  mark_after_break :: uint16_t
  dmx_bytes :: "uint16_t list"

text \<open>
  The words of the struct in memory order, as \<^verbatim>\<open>debugI2S\<close> and \<^verbatim>\<open>i2s_write_buffer\<close>
  see it through a \<^verbatim>\<open>uint16_t *\<close>, and \<^verbatim>\<open>sizeof(global.i2s_data)\<close> in bytes.
\<close>

definition i2s_words :: "i2s_packet \<Rightarrow> uint16_t list" where
  "i2s_words p =
     mark_before_break p @ space_for_break p @ [mark_after_break p] @ dmx_bytes p"

definition sizeof_i2s_packet :: "i2s_packet \<Rightarrow> nat" where
  "sizeof_i2s_packet p = 2 * length (i2s_words p)"

text \<open>
  The global universe buffer \<^verbatim>\<open>global\<close>, with \<^verbatim>\<open>ENABLE_UART\<close> and \<^verbatim>\<open>ENABLE_I2S\<close>
  both defined as in the source. The field \<^verbatim>\<open>length\<close> is named \<open>length_g\<close> here;
  \<^verbatim>\<open>data\<close> is the block of 512 bytes that \<^verbatim>\<open>setup\<close> allocates.
\<close>

record global_t =
  universe :: uint16_t
  length_g :: uint16_t
  sequence :: uint8_t
  data :: "uint8_t list"
  i2s_data :: i2s_packet
  i2s_length :: uint16_t

section \<open>Bit reversal\<close>

text \<open>
  \<^verbatim>\<open>byte flipByte(byte c)\<close>: the operands of \<^verbatim>\<open>>>\<close>, \<^verbatim>\<open><<\<close>, \<^verbatim>\<open>&\<close> and \<^verbatim>\<open>|\<close> are
  promoted to \<^verbatim>\<open>int\<close>, and each assignment to \<^verbatim>\<open>c\<close> and the return truncate to 8 bits.
\<close>

definition flipByte :: "uint8_t \<Rightarrow> uint8_t" where
  "flipByte c =
     (let c1 = ucast ((drop_bit 1 (ucast c :: c_int) AND 0x55)
                      OR (push_bit 1 (ucast c :: c_int) AND 0xAA)) :: uint8_t;
          c2 = ucast ((drop_bit 2 (ucast c1 :: c_int) AND 0x33)
                      OR (push_bit 2 (ucast c1 :: c_int) AND 0xCC)) :: uint8_t
      in ucast (drop_bit 4 (ucast c2 :: c_int) OR push_bit 4 (ucast c2 :: c_int)))"

text \<open>
  The two bytes of a symbol, as \<^verbatim>\<open>debugI2S\<close> takes them apart:
  \<^verbatim>\<open>byte hi = b>>8; byte lo = b & 0xff;\<close>
\<close>

definition symbol_hi :: "uint16_t \<Rightarrow> uint8_t" where
  "symbol_hi b = ucast (drop_bit 8 b)"

definition symbol_lo :: "uint16_t \<Rightarrow> uint8_t" where
  "symbol_lo b = ucast (b AND 0xff)"

section \<open>Ingress: \<^verbatim>\<open>onDmxPacket\<close>\<close>

text \<open>
  The value that one iteration of the I2S loop stores at \<^verbatim>\<open>dmx_bytes[i + 1]\<close>:
  \<^verbatim>\<open>
    uint16_t hi = i < length ? flipByte(data[i]) : 0;
    uint16_t lo = i == (even_length-1) ? 0b0000000011111111 : 0b0000000011111110;
    ... = (hi << 8) | lo;
  \<close>
  with \<^verbatim>\<open>even_length = DMX_CHANNELS\<close>.
\<close>

definition i2s_symbol :: "uint16_t \<Rightarrow> uint8_t list \<Rightarrow> nat \<Rightarrow> uint16_t" where
  "i2s_symbol len dat i =
     (let even_length = DMX_CHANNELS;
          hi = (if int i < uint len then ucast (flipByte (dat ! i)) else 0) :: uint16_t;
          lo = (if i = even_length - 1 then 0xFF else 0xFE) :: uint16_t
      in push_bit 8 hi OR lo)"

text \<open>
  \<^verbatim>\<open>onDmxPacket(universe, length, sequence, data)\<close> on the universe buffer. A
  \<^verbatim>\<open>for (int i = 0; i < n; i++)\<close> loop whose bound the body does not change is a
  \<open>fold\<close> over \<open>[0..<n]\<close>. The feedback printed on the console and the packet
  statistics (\<^verbatim>\<open>last_packet_received\<close>, \<^verbatim>\<open>tic_fps\<close>, \<^verbatim>\<open>packetCounter\<close>, \<^verbatim>\<open>fps\<close>,
  \<^verbatim>\<open>frameCounter\<close>) are variables of their own, outside \<^verbatim>\<open>global\<close>, and are left out.
\<close>

definition onDmxPacket ::
  "Config \<Rightarrow> uint16_t \<Rightarrow> uint16_t \<Rightarrow> uint8_t \<Rightarrow> uint8_t list \<Rightarrow> global_t \<Rightarrow> global_t" where
  "onDmxPacket config u len seq dat g =
     (if uint u = sint (universe_cfg config) then
        let even_length = DMX_CHANNELS;
            g1 = g\<lparr>i2s_data := (i2s_data g)\<lparr>dmx_bytes :=
                   fold (\<lambda>i p. p[i + 1 := i2s_symbol len dat i]) [0..<even_length]
                     (dmx_bytes (i2s_data g))\<rparr>\<rparr>;
            g2 = g1\<lparr>universe := u\<rparr>;
            g3 = g2\<lparr>sequence := seq\<rparr>;
            g4 = (if len < 512 then g3\<lparr>length_g := len\<rparr> else g3)
        in g4\<lparr>data := fold (\<lambda>i d. d[i := dat ! i]) [0..<unat (length_g g4)] (data g4)\<rparr>
      else g)"

text \<open>A received packet, and the callback run on a sequence of packets.\<close>

type_synonym packet = "uint16_t \<times> uint16_t \<times> uint8_t \<times> uint8_t list"

definition onDmxPackets :: "Config \<Rightarrow> packet list \<Rightarrow> global_t \<Rightarrow> global_t" where
  "onDmxPackets config ps g =
     fold (\<lambda>(u, len, seq, dat). onDmxPacket config u len seq dat) ps g"

section \<open>Initialisation: \<^verbatim>\<open>initI2S\<close> and \<^verbatim>\<open>setup\<close>\<close>

text \<open>
  \<^verbatim>\<open>initI2S\<close>: the two \<^verbatim>\<open>memset\<close> calls, the mark after break, the loop over
  \<^verbatim>\<open>dmx_bytes[0 .. DMX_CHANNELS)\<close>, the last symbol and \<^verbatim>\<open>i2s_length\<close> (a
  \<^verbatim>\<open>uint16_t\<close>, so \<^verbatim>\<open>sizeof\<close> is truncated). Pin set-up and \<^verbatim>\<open>i2s_begin\<close> act on
  the peripheral only.
\<close>

definition initI2S :: "global_t \<Rightarrow> global_t" where
  "initI2S g =
     (let p0 = i2s_data g;
          p1 = \<lparr>mark_before_break = map (\<lambda>_. 0) (mark_before_break p0),
                space_for_break = map (\<lambda>_. 0) (space_for_break p0),
                mark_after_break = 0,
                dmx_bytes = map (\<lambda>_. 0) (dmx_bytes p0)\<rparr>;
          p2 = p1\<lparr>mark_before_break := map (\<lambda>_. 0xFFFF) (mark_before_break p1)\<rparr>;
          p3 = p2\<lparr>mark_after_break := 0xE\<rparr>;
          p4 = p3\<lparr>dmx_bytes := fold (\<lambda>i d. d[i := 0xFE]) [0..<DMX_CHANNELS] (dmx_bytes p3)\<rparr>;
          p5 = p4\<lparr>dmx_bytes := (dmx_bytes p4)[DMX_CHANNELS := 0xFF]\<rparr>
      in g\<lparr>i2s_data := p5, i2s_length := word_of_nat (sizeof_i2s_packet p5)\<rparr>)"

text \<open>
  The part of \<^verbatim>\<open>setup\<close> that writes \<^verbatim>\<open>global\<close>: the three scalar fields, the
  512 bytes from \<^verbatim>\<open>malloc\<close> set to zero one by one, and \<^verbatim>\<open>initI2S\<close>.
\<close>

definition setup_global :: "global_t \<Rightarrow> global_t" where
  "setup_global g =
     initI2S (g\<lparr>universe := 0, sequence := 0, length_g := 512,
                data := fold (\<lambda>i d. d[i := 0]) [0..<512] (replicate 512 0)\<rparr>)"

text \<open>
  \<^verbatim>\<open>global\<close> before \<^verbatim>\<open>setup\<close>: a zero-initialised object of static storage. The array
  sizes of \<^verbatim>\<open>i2s_packet\<close> follow the frame layout comment above \<^verbatim>\<open>debugI2S\<close> (ten words of
  mark before break, two of break); \<^verbatim>\<open>data\<close> is a null pointer, no bytes.
\<close>

definition global_boot :: global_t where
  "global_boot =
     \<lparr>universe = 0, length_g = 0, sequence = 0, data = [],
      i2s_data = \<lparr>mark_before_break = replicate 10 0, space_for_break = replicate 2 0,
                  mark_after_break = 0, dmx_bytes = replicate (DMX_CHANNELS + 1) 0\<rparr>,
      i2s_length = 0\<rparr>"

section \<open>Transports: \<^verbatim>\<open>outputSerial\<close> and \<^verbatim>\<open>outputI2S\<close>\<close>

text \<open>
  \<^verbatim>\<open>outputSerial\<close>: the bytes written to \<^verbatim>\<open>Serial1\<close> after \<^verbatim>\<open>sendBreak()\<close>, in
  order. The loop runs while \<^verbatim>\<open>i < MIN(global.length, config.channels)\<close>, a comparison
  of \<^verbatim>\<open>int\<close>s, so it runs \<open>nat\<close> of that bound times (not at all when the bound is
  negative). The packet rate printed once a second is left out.
\<close>

definition outputSerial :: "Config \<Rightarrow> global_t \<Rightarrow> uint8_t list" where
  "outputSerial config g =
     fold (\<lambda>i out. out @ [data g ! i])
       [0..<nat (MIN_macro (uint (length_g g)) (sint (channels config)))] [0]"

text \<open>
  \<^verbatim>\<open>outputI2S\<close>: the words handed to \<^verbatim>\<open>i2s_write_buffer\<close>, which takes
  \<^verbatim>\<open>frames = sizeof(global.i2s_data) / 4\<close> frames of two 16-bit words each from the
  start of the struct.
\<close>

definition outputI2S :: "global_t \<Rightarrow> uint16_t list" where
  "outputI2S g =
     (let frames = sizeof_i2s_packet (i2s_data g) div 4
      in take (2 * frames) (i2s_words (i2s_data g)))"

section \<open>Scheduler: \<^verbatim>\<open>loop\<close>\<close>

text \<open>
  The state that \<^verbatim>\<open>loop\<close> works on: the universe buffer, the timers \<^verbatim>\<open>tic_loop\<close> and
  \<^verbatim>\<open>tic_web\<close> (\<^verbatim>\<open>long\<close>, compared after conversion to \<^verbatim>\<open>unsigned long\<close>), and
  what each transport has sent so far, one entry per invocation. \<^verbatim>\<open>frameCounter\<close> belongs
  to the packet statistics and is left out with them.
\<close>

record sketch =
  glob :: global_t
  tic_loop :: c_ulong
  tic_web :: c_ulong
  uart_frames :: "uint8_t list list"
  i2s_frames :: "uint16_t list list"

text \<open>A handler of the web server: each one starts with \<^verbatim>\<open>tic_web = millis()\<close>.\<close>

definition web_request :: "c_ulong \<Rightarrow> sketch \<Rightarrow> sketch" where
  "web_request now s = s\<lparr>tic_web := now\<rparr>"

text \<open>
  One pass of \<^verbatim>\<open>loop\<close> with \<^verbatim>\<open>ENABLE_STANDALONE\<close> defined (no early return without
  WiFi). The three readings of \<^verbatim>\<open>millis()\<close> that matter are parameters: \<open>t_web\<close> in
  \<^verbatim>\<open>(millis() - tic_web) < 5000\<close>, \<open>t_chk\<close> in \<^verbatim>\<open>(millis() - tic_loop) > config.delay\<close>
  and \<open>t_set\<close> in \<^verbatim>\<open>tic_loop = millis()\<close>. \<open>pkt\<close> is the packet that \<^verbatim>\<open>artnet.read()\<close>
  hands to the callback in this pass, if any. In the comparison with \<^verbatim>\<open>config.delay\<close>
  the \<^verbatim>\<open>int\<close> is converted to \<^verbatim>\<open>unsigned long\<close>, which keeps its 32 bits.
\<close>

definition loop ::
  "Config \<Rightarrow> c_ulong \<Rightarrow> c_ulong \<Rightarrow> c_ulong \<Rightarrow> packet option \<Rightarrow> sketch \<Rightarrow> sketch" where
  "loop config t_web t_chk t_set pkt s =
     (if t_web - tic_web s < 5000 then s
      else
        let s1 = (case pkt of
                    None \<Rightarrow> s
                  | Some (u, len, seq, dat) \<Rightarrow>
                      s\<lparr>glob := onDmxPacket config u len seq dat (glob s)\<rparr>)
        in if t_chk - tic_loop s1 > delay config then
             let s2 = s1\<lparr>tic_loop := t_set\<rparr>;
                 s3 = s2\<lparr>uart_frames := uart_frames s2 @ [outputSerial config (glob s2)]\<rparr>
             in s3\<lparr>i2s_frames := i2s_frames s3 @ [outputI2S (glob s3)]\<rparr>
           else s1)"

text \<open>
  The end of \<^verbatim>\<open>setup\<close>: \<^verbatim>\<open>tic_loop = millis()\<close> and \<^verbatim>\<open>tic_web = 0\<close>; nothing has
  been sent yet.
\<close>

definition setup_sketch :: "c_ulong \<Rightarrow> sketch" where
  "setup_sketch now =
     \<lparr>glob = setup_global global_boot, tic_loop = now, tic_web = 0,
      uart_frames = [], i2s_frames = []\<rparr>"

section \<open>A configuration for the examples\<close>

text \<open>Universe 0, three channels on the UART, 25 ms between frames.\<close>

definition config_example :: Config where
  "config_example = \<lparr>universe_cfg = 0, channels = 3, delay = 25\<rparr>"

section \<open>Bit reversal is an involution\<close>

lemma bit_position_cases:
  "pos < 8 \<Longrightarrow> pos \<in> {0, 1, 2, 3} \<or> pos \<in> {4, 5, 6, 7 :: nat}"
  by auto

lemma bit_flipByte: "pos < 8 \<Longrightarrow> bit (flipByte c) pos = bit c (7 - pos)"
  apply (drule bit_position_cases)
  apply (elim disjE insertE emptyE)
         apply (simp_all add: flipByte_def Let_def bit_simps push_bit_eq_mult [symmetric]
           numeral_3_eq_3 numeral_2_eq_2 del: push_bit_Suc)
  done

lemma flipByte_word_reverse: "flipByte c = word_reverse c"
  by (rule bit_word_eqI) (simp add: bit_flipByte bit_simps)


section \<open>Loops that store into an array\<close>

lemma fold_update_length:
  "length (fold (\<lambda>i ys. ys[h i := f i]) js xs) = length xs"
  by (induction js arbitrary: xs) simp_all

lemma fold_update_nth:
  "j < length xs \<Longrightarrow>
   fold (\<lambda>i ys. ys[i + k := f i]) [0..<n] xs ! j =
     (if k \<le> j \<and> j < n + k then f (j - k) else xs ! j)"
proof (induction n)
  case 0
  then show ?case by auto
next
  case (Suc n)
  have len: "j < length (fold (\<lambda>i ys. ys[i + k := f i]) [0..<n] xs)"
    using Suc.prems by (simp add: fold_update_length)
  show ?case
  proof (cases "j = n + k")
    case True
    with len show ?thesis by simp
  next
    case False
    with len Suc show ?thesis by (auto simp: nth_list_update)
  qed
qed

lemmas fold_update_nth0 = fold_update_nth [where k = 0, simplified]

section \<open>The symbols written by \<^verbatim>\<open>onDmxPacket\<close>\<close>

lemma and_255_take_bit: "(x :: uint16_t) AND 0xFF = take_bit 8 x"
  by (simp add: take_bit_eq_mask mask_numeral)

lemma symbol_lo_push:
  "symbol_lo (push_bit 8 h OR lo) = ucast lo"
  unfolding symbol_lo_def and_255_take_bit
  by (rule bit_word_eqI) (auto simp add: bit_simps)

lemma symbol_hi_i2s_symbol:
  "symbol_hi (i2s_symbol len dat i) = (if int i < uint len then flipByte (dat ! i) else 0)"
  apply (simp add: i2s_symbol_def symbol_hi_def Let_def)
  apply (intro conjI impI)
  apply (rule bit_word_eqI; simp add: bit_simps)+
  done

lemma symbol_lo_i2s_symbol:
  "symbol_lo (i2s_symbol len dat i) = (if i = DMX_CHANNELS - 1 then 0xFF else 0xFE)"
  by (simp add: i2s_symbol_def Let_def symbol_lo_push)

lemma int_less_uint: "int i < uint w \<longleftrightarrow> i < unat w"
proof -
  have "int i < int (unat w) \<longleftrightarrow> i < unat w"
    by (rule of_nat_less_iff)
  then show ?thesis by simp
qed

lemma dmx_bytes_onDmxPacket:
  "uint u = sint (universe_cfg config) \<Longrightarrow>
   dmx_bytes (i2s_data (onDmxPacket config u len seq dat g)) =
     fold (\<lambda>i p. p[i + 1 := i2s_symbol len dat i]) [0..<DMX_CHANNELS] (dmx_bytes (i2s_data g))"
  by (simp add: onDmxPacket_def Let_def)

lemma length_dmx_bytes_onDmxPacket:
  "length (dmx_bytes (i2s_data (onDmxPacket config u len seq dat g))) =
     length (dmx_bytes (i2s_data g))"
  by (simp add: onDmxPacket_def Let_def fold_update_length)

lemma nth_dmx_bytes_onDmxPacket:
  assumes "uint u = sint (universe_cfg config)"
    and "j < length (dmx_bytes (i2s_data g))"
  shows "dmx_bytes (i2s_data (onDmxPacket config u len seq dat g)) ! j =
     (if 1 \<le> j \<and> j < DMX_CHANNELS + 1 then i2s_symbol len dat (j - 1)
      else dmx_bytes (i2s_data g) ! j)"
  using assms by (simp only: dmx_bytes_onDmxPacket fold_update_nth)

text \<open>
  C2. A call of \<^verbatim>\<open>onDmxPacket\<close> whose universe differs from \<^verbatim>\<open>config.universe\<close>
  leaves the whole universe buffer as it was: \<^verbatim>\<open>universe\<close>, \<^verbatim>\<open>sequence\<close>,
  \<^verbatim>\<open>length\<close>, the 512 channel values and the I2S frame buffer.
\<close>

theorem onDmxPacket_other_universe:
  "uint u \<noteq> sint (universe_cfg config) \<Longrightarrow> onDmxPacket config u len seq dat g = g"
  by (simp add: onDmxPacket_def)

text \<open>
  C3. After a call of \<^verbatim>\<open>onDmxPacket\<close> for the configured universe, for every channel
  index \<open>i\<close> below the packet length, the symbol at index \<open>i + 1\<close> has as high byte
  \<^verbatim>\<open>flipByte(data[i])\<close>, which is the bit reversal of \<^verbatim>\<open>data[i]\<close>, and, unless it is
  the last symbol, as low byte the start bit and seven stop bits \<open>0b11111110\<close>. With
  \<^verbatim>\<open>data[i] = 0x01\<close> the high byte is \<open>0x80\<close>.
\<close>

theorem onDmxPacket_symbol:
  assumes "uint u = sint (universe_cfg config)"
    and "length (dmx_bytes (i2s_data g)) = DMX_CHANNELS + 1"
    and "unat len \<le> length dat"
    and "i < unat len" and "i < DMX_CHANNELS"
  shows "symbol_hi (dmx_bytes (i2s_data (onDmxPacket config u len seq dat g)) ! (i + 1))
           = flipByte (dat ! i)
       \<and> flipByte (dat ! i) = word_reverse (dat ! i)
       \<and> (i \<noteq> DMX_CHANNELS - 1 \<longrightarrow>
            symbol_lo (dmx_bytes (i2s_data (onDmxPacket config u len seq dat g)) ! (i + 1))
              = 0xFE)
       \<and> (dat ! i = 0x01 \<longrightarrow>
            symbol_hi (dmx_bytes (i2s_data (onDmxPacket config u len seq dat g)) ! (i + 1))
              = 0x80)"
proof -
  let ?sym = "dmx_bytes (i2s_data (onDmxPacket config u len seq dat g)) ! (i + 1)"
  have sym: "?sym = i2s_symbol len dat i"
    using assms by (simp add: nth_dmx_bytes_onDmxPacket)
  have lt: "int i < uint len"
    using \<open>i < unat len\<close> by (simp only: int_less_uint)
  have hi: "symbol_hi ?sym = flipByte (dat ! i)"
    unfolding sym using lt by (simp add: symbol_hi_i2s_symbol)
  have lo: "i \<noteq> DMX_CHANNELS - 1 \<longrightarrow> symbol_lo ?sym = 0xFE"
    unfolding sym by (simp add: symbol_lo_i2s_symbol)
  have one: "flipByte 0x01 = 0x80"
    by (simp add: flipByte_def)
  have "dat ! i = 0x01 \<longrightarrow> symbol_hi ?sym = 0x80"
    unfolding hi using one by simp
  with hi lo show ?thesis
    by (simp only: flipByte_word_reverse simp_thms)
qed

text \<open>
  C10. After a call of \<^verbatim>\<open>onDmxPacket\<close> for the configured universe with a length
  below \<^verbatim>\<open>DMX_CHANNELS\<close>, every symbol of a tail channel (index \<open>i + 1\<close> with
  \<open>length \<le> i < DMX_CHANNELS\<close>) has high byte 0, whatever it held before.
\<close>

theorem onDmxPacket_tail_zero:
  assumes "uint u = sint (universe_cfg config)"
    and "length (dmx_bytes (i2s_data g)) = DMX_CHANNELS + 1"
    and "unat len \<le> i" and "i < DMX_CHANNELS"
  shows "symbol_hi (dmx_bytes (i2s_data (onDmxPacket config u len seq dat g)) ! (i + 1)) = 0"
proof -
  have "\<not> int i < uint len"
    using \<open>unat len \<le> i\<close> by (simp only: int_less_uint not_less)
  then show ?thesis
    using assms by (simp add: nth_dmx_bytes_onDmxPacket symbol_hi_i2s_symbol)
qed

section \<open>Framing bits of the I2S frame buffer\<close>

lemma DMX_CHANNELS_pos: "0 < DMX_CHANNELS"
  by (simp add: DMX_CHANNELS_def)

lemma i2s_data_initI2S:
  "i2s_data (initI2S g) =
     \<lparr>mark_before_break = map (\<lambda>_. 0xFFFF) (mark_before_break (i2s_data g)),
      space_for_break = map (\<lambda>_. 0) (space_for_break (i2s_data g)),
      mark_after_break = 0xE,
      dmx_bytes = (fold (\<lambda>i d. d[i := 0xFE]) [0..<DMX_CHANNELS]
                     (map (\<lambda>_. 0) (dmx_bytes (i2s_data g))))[DMX_CHANNELS := 0xFF]\<rparr>"
  by (simp add: initI2S_def Let_def comp_def)

lemma length_dmx_bytes_initI2S:
  "length (dmx_bytes (i2s_data (initI2S g))) = length (dmx_bytes (i2s_data g))"
  by (simp add: i2s_data_initI2S fold_update_length)

lemma nth_dmx_bytes_initI2S:
  assumes "length (dmx_bytes (i2s_data g)) = DMX_CHANNELS + 1" and "j \<le> DMX_CHANNELS"
  shows "dmx_bytes (i2s_data (initI2S g)) ! j = (if j = DMX_CHANNELS then 0xFF else 0xFE)"
  using assms
  by (simp add: i2s_data_initI2S nth_list_update fold_update_length fold_update_nth0)

lemma symbol_lo_numeral: "symbol_lo 0xFF = 0xFF" "symbol_lo 0xFE = 0xFE"
  by (simp_all add: symbol_lo_def)

lemma framing_initI2S:
  assumes "length (dmx_bytes (i2s_data g)) = DMX_CHANNELS + 1"
  shows "map symbol_lo (dmx_bytes (i2s_data (initI2S g))) = replicate DMX_CHANNELS 0xFE @ [0xFF]"
proof (rule nth_equalityI)
  show "length (map symbol_lo (dmx_bytes (i2s_data (initI2S g)))) =
        length (replicate DMX_CHANNELS (0xFE :: uint8_t) @ [0xFF])"
    using assms by (simp add: length_dmx_bytes_initI2S)
next
  fix j
  assume "j < length (map symbol_lo (dmx_bytes (i2s_data (initI2S g))))"
  then have j: "j \<le> DMX_CHANNELS"
    using assms by (simp add: length_dmx_bytes_initI2S)
  then show "map symbol_lo (dmx_bytes (i2s_data (initI2S g))) ! j =
             (replicate DMX_CHANNELS 0xFE @ [0xFF]) ! j"
    using assms
    by (simp add: length_dmx_bytes_initI2S nth_dmx_bytes_initI2S nth_append symbol_lo_numeral)
qed

lemma framing_onDmxPacket:
  assumes len: "length (dmx_bytes (i2s_data g)) = DMX_CHANNELS + 1"
    and fr: "map symbol_lo (dmx_bytes (i2s_data g)) = replicate DMX_CHANNELS 0xFE @ [0xFF]"
  shows "map symbol_lo (dmx_bytes (i2s_data (onDmxPacket config u len' seq dat g))) =
           replicate DMX_CHANNELS 0xFE @ [0xFF]"
proof (cases "uint u = sint (universe_cfg config)")
  case False
  then show ?thesis by (simp add: onDmxPacket_def fr)
next
  case True
  show ?thesis
  proof (rule nth_equalityI)
    show "length (map symbol_lo (dmx_bytes (i2s_data (onDmxPacket config u len' seq dat g)))) =
          length (replicate DMX_CHANNELS (0xFE :: uint8_t) @ [0xFF])"
      using len by (simp add: length_dmx_bytes_onDmxPacket)
  next
    fix j
    assume "j < length (map symbol_lo (dmx_bytes (i2s_data (onDmxPacket config u len' seq dat g))))"
    then have j: "j < DMX_CHANNELS + 1"
      using len by (simp add: length_dmx_bytes_onDmxPacket)
    have old: "symbol_lo (dmx_bytes (i2s_data g) ! j) = (replicate DMX_CHANNELS 0xFE @ [0xFF]) ! j"
      using j len arg_cong [OF fr, of "\<lambda>xs. xs ! j"] by simp
    show "map symbol_lo (dmx_bytes (i2s_data (onDmxPacket config u len' seq dat g))) ! j =
          (replicate DMX_CHANNELS 0xFE @ [0xFF]) ! j"
    proof (cases "j = 0")
      case True
      with old \<open>uint u = sint (universe_cfg config)\<close> len j show ?thesis
        by (simp add: length_dmx_bytes_onDmxPacket nth_dmx_bytes_onDmxPacket)
    next
      case False
      with \<open>uint u = sint (universe_cfg config)\<close> len j DMX_CHANNELS_pos show ?thesis
        by (auto simp add: length_dmx_bytes_onDmxPacket nth_dmx_bytes_onDmxPacket
            symbol_lo_i2s_symbol nth_append)
    qed
  qed
qed

lemma i2s_frame_onDmxPacket:
  "mark_before_break (i2s_data (onDmxPacket config u len seq dat g)) = mark_before_break (i2s_data g)"
  "space_for_break (i2s_data (onDmxPacket config u len seq dat g)) = space_for_break (i2s_data g)"
  "mark_after_break (i2s_data (onDmxPacket config u len seq dat g)) = mark_after_break (i2s_data g)"
  by (simp_all add: onDmxPacket_def Let_def)

lemma onDmxPackets_Nil: "onDmxPackets config [] g = g"
  by (simp add: onDmxPackets_def)

lemma onDmxPackets_Cons:
  "onDmxPackets config ((u, len, seq, dat) # ps) g =
     onDmxPackets config ps (onDmxPacket config u len seq dat g)"
  by (simp add: onDmxPackets_def)

lemma i2s_frame_onDmxPackets:
  "mark_before_break (i2s_data (onDmxPackets config ps g)) = mark_before_break (i2s_data g)
   \<and> space_for_break (i2s_data (onDmxPackets config ps g)) = space_for_break (i2s_data g)
   \<and> mark_after_break (i2s_data (onDmxPackets config ps g)) = mark_after_break (i2s_data g)
   \<and> length (dmx_bytes (i2s_data (onDmxPackets config ps g))) = length (dmx_bytes (i2s_data g))"
proof (induction ps arbitrary: g)
  case Nil
  show ?case by (simp add: onDmxPackets_Nil)
next
  case (Cons p ps)
  obtain u len seq dat where p: "p = (u, len, seq, dat)"
    by (cases p) auto
  show ?case
    unfolding p onDmxPackets_Cons
    by (simp add: Cons.IH i2s_frame_onDmxPacket length_dmx_bytes_onDmxPacket)
qed

lemma framing_onDmxPackets:
  assumes "length (dmx_bytes (i2s_data g)) = DMX_CHANNELS + 1"
    and "map symbol_lo (dmx_bytes (i2s_data g)) = replicate DMX_CHANNELS 0xFE @ [0xFF]"
  shows "map symbol_lo (dmx_bytes (i2s_data (onDmxPackets config ps g))) =
           replicate DMX_CHANNELS 0xFE @ [0xFF]"
  using assms
proof (induction ps arbitrary: g)
  case Nil
  then show ?case by (simp add: onDmxPackets_Nil)
next
  case (Cons p ps)
  obtain u len seq dat where p: "p = (u, len, seq, dat)"
    by (cases p) auto
  show ?case
    unfolding p onDmxPackets_Cons
    by (rule Cons.IH) (simp_all add: Cons.prems length_dmx_bytes_onDmxPacket framing_onDmxPacket)
qed

lemma i2s_data_setup_global: "i2s_data (setup_global g) = i2s_data (initI2S g)"
  by (simp add: setup_global_def initI2S_def Let_def)

text \<open>
  C5. After \<^verbatim>\<open>setup\<close> (which runs \<^verbatim>\<open>initI2S\<close>) and any finite sequence of
  \<^verbatim>\<open>onDmxPacket\<close> calls, the low byte of every symbol of the frame buffer is the one
  that initialisation gave it; the low byte of the last channel symbol,
  \<^verbatim>\<open>dmx_bytes[DMX_CHANNELS]\<close>, is \<open>0b11111111\<close>, and that of every other symbol of
  \<^verbatim>\<open>dmx_bytes\<close> is \<open>0b11111110\<close>.
\<close>

theorem framing_bits_stable:
  assumes "length (dmx_bytes (i2s_data g0)) = DMX_CHANNELS + 1"
  shows "map symbol_lo (i2s_words (i2s_data (onDmxPackets config ps (setup_global g0)))) =
           map symbol_lo (i2s_words (i2s_data (setup_global g0)))
       \<and> map symbol_lo (dmx_bytes (i2s_data (onDmxPackets config ps (setup_global g0)))) =
           replicate DMX_CHANNELS 0xFE @ [0xFF]"
proof -
  let ?s0 = "setup_global g0"
  have len: "length (dmx_bytes (i2s_data ?s0)) = DMX_CHANNELS + 1"
    using assms by (simp add: i2s_data_setup_global length_dmx_bytes_initI2S)
  have fr0: "map symbol_lo (dmx_bytes (i2s_data ?s0)) = replicate DMX_CHANNELS 0xFE @ [0xFF]"
    using assms by (simp add: i2s_data_setup_global framing_initI2S)
  have fr: "map symbol_lo (dmx_bytes (i2s_data (onDmxPackets config ps ?s0))) =
              replicate DMX_CHANNELS 0xFE @ [0xFF]"
    using len fr0 by (rule framing_onDmxPackets)
  show ?thesis
    by (simp add: i2s_words_def i2s_frame_onDmxPackets fr fr0)
qed

section \<open>The frame handed to the I2S peripheral\<close>

lemma drop_1_dmx_bytes_onDmxPacket:
  assumes "uint u = sint (universe_cfg config)"
    and "length (dmx_bytes (i2s_data g)) = DMX_CHANNELS + 1"
  shows "drop 1 (dmx_bytes (i2s_data (onDmxPacket config u len seq dat g))) =
           map (i2s_symbol len dat) [0..<DMX_CHANNELS]"
proof (rule nth_equalityI)
  show "length (drop 1 (dmx_bytes (i2s_data (onDmxPacket config u len seq dat g)))) =
        length (map (i2s_symbol len dat) [0..<DMX_CHANNELS])"
    using assms by (simp add: length_dmx_bytes_onDmxPacket)
next
  fix i
  assume "i < length (drop 1 (dmx_bytes (i2s_data (onDmxPacket config u len seq dat g))))"
  then have i: "i < DMX_CHANNELS"
    using assms by (simp add: length_dmx_bytes_onDmxPacket)
  then show "drop 1 (dmx_bytes (i2s_data (onDmxPacket config u len seq dat g))) ! i =
             map (i2s_symbol len dat) [0..<DMX_CHANNELS] ! i"
    using assms by (simp add: length_dmx_bytes_onDmxPacket nth_dmx_bytes_onDmxPacket)
qed

lemma outputI2S_whole:
  "even (length (i2s_words (i2s_data g))) \<Longrightarrow> outputI2S g = i2s_words (i2s_data g)"
  by (auto simp add: outputI2S_def sizeof_i2s_packet_def Let_def elim!: evenE)

lemma length_i2s_words_onDmxPacket:
  "length (i2s_words (i2s_data (onDmxPacket config u len seq dat g))) =
     length (i2s_words (i2s_data g))"
  by (simp add: i2s_words_def i2s_frame_onDmxPacket length_dmx_bytes_onDmxPacket)

lemma length_i2s_words_run:
  "length (i2s_words (i2s_data (onDmxPackets config ps (setup_global global_boot)))) =
     DMX_CHANNELS + 14"
  by (simp add: i2s_words_def i2s_frame_onDmxPackets i2s_data_setup_global i2s_data_initI2S
      fold_update_length global_boot_def)

text \<open>
  With the array sizes of the frame layout comment, the frame buffer has 526 words, an even
  number, in every state reached from start-up: \<^verbatim>\<open>outputI2S\<close> always hands over all
  of it.
\<close>

lemma outputI2S_reachable:
  "outputI2S (onDmxPackets config ps (setup_global global_boot)) =
     i2s_words (i2s_data (onDmxPackets config ps (setup_global global_boot)))"
proof -
  have "even (length (i2s_words (i2s_data (onDmxPackets config ps (setup_global global_boot)))))"
    unfolding length_i2s_words_run by (simp add: DMX_CHANNELS_def)
  then show ?thesis
    by (rule outputI2S_whole)
qed

text \<open>
  C9. The I2S transport sends the full channel count whatever the packet length: a call of
  \<^verbatim>\<open>onDmxPacket\<close> for the configured universe writes every one of the
  \<^verbatim>\<open>DMX_CHANNELS\<close> channel symbols \<^verbatim>\<open>dmx_bytes[1 .. DMX_CHANNELS]\<close> anew, and what
  \<^verbatim>\<open>outputI2S\<close> hands to the peripheral does not depend on \<^verbatim>\<open>global.length\<close> or
  \<^verbatim>\<open>global.i2s_length\<close>: it is the whole frame buffer, before and after the call,
  whenever the struct holds an even number of 16-bit words (\<^verbatim>\<open>sizeof / 4\<close> frames of
  two words each).
\<close>

theorem i2s_full_frame:
  assumes "uint u = sint (universe_cfg config)"
    and "length (dmx_bytes (i2s_data g)) = DMX_CHANNELS + 1"
  shows "drop 1 (dmx_bytes (i2s_data (onDmxPacket config u len seq dat g))) =
           map (i2s_symbol len dat) [0..<DMX_CHANNELS]
       \<and> outputI2S (g\<lparr>length_g := l, i2s_length := k\<rparr>) = outputI2S g
       \<and> (even (length (i2s_words (i2s_data g))) \<longrightarrow>
            outputI2S g = i2s_words (i2s_data g)
            \<and> outputI2S (onDmxPacket config u len seq dat g) =
                i2s_words (i2s_data (onDmxPacket config u len seq dat g)))"
proof -
  have "outputI2S (g\<lparr>length_g := l, i2s_length := k\<rparr>) = outputI2S g"
    by (simp add: outputI2S_def)
  moreover note drop_1_dmx_bytes_onDmxPacket [OF assms, of len seq dat]
  moreover have "even (length (i2s_words (i2s_data g))) \<longrightarrow>
            outputI2S g = i2s_words (i2s_data g)
            \<and> outputI2S (onDmxPacket config u len seq dat g) =
                i2s_words (i2s_data (onDmxPacket config u len seq dat g))"
    by (simp add: outputI2S_whole length_i2s_words_onDmxPacket)
  ultimately show ?thesis
    by (intro conjI)
qed

section \<open>The UART frame\<close>

lemma fold_snoc_nth:
  "fold (\<lambda>i out. out @ [xs ! i]) [0..<n] acc = acc @ map (\<lambda>i. xs ! i) [0..<n]"
  by (induction n) simp_all

lemma map_nth_take: "n \<le> length xs \<Longrightarrow> map (\<lambda>i. xs ! i) [0..<n] = take n xs"
  by (rule nth_equalityI) simp_all

lemma outputSerial_take:
  assumes "nat (MIN_macro (uint (length_g g)) (sint (channels config))) \<le> length (data g)"
  shows "outputSerial config g =
           0 # take (nat (MIN_macro (uint (length_g g)) (sint (channels config)))) (data g)"
  using assms by (simp add: outputSerial_def fold_snoc_nth map_nth_take)

lemma MIN_macro_min: "MIN_macro x y = min x y"
  by (simp add: MIN_macro_def min_def)

text \<open>
  C1. \<^verbatim>\<open>outputSerial\<close> writes, after the break, the start code 0 and then the first
  \<open>min(length, channels)\<close> bytes of \<^verbatim>\<open>global.data\<close> in index order: exactly
  \<^verbatim>\<open>global.length\<close> data bytes when \<^verbatim>\<open>global.length \<le> config.channels\<close>, and exactly
  \<^verbatim>\<open>config.channels\<close> bytes when \<^verbatim>\<open>global.length > config.channels\<close> (none for a negative
  \<^verbatim>\<open>config.channels\<close>). The buffer has its 512 bytes and \<^verbatim>\<open>global.length\<close> is at most
  512, as in every state reached from start-up.
\<close>

theorem outputSerial_frame:
  assumes "length (data g) = 512" and "unat (length_g g) \<le> 512"
  shows "outputSerial config g =
           0 # take (nat (min (uint (length_g g)) (sint (channels config)))) (data g)
       \<and> length (tl (outputSerial config g)) =
           nat (min (uint (length_g g)) (sint (channels config)))
       \<and> (uint (length_g g) \<le> sint (channels config) \<longrightarrow>
            length (tl (outputSerial config g)) = unat (length_g g))
       \<and> (sint (channels config) < uint (length_g g) \<longrightarrow>
            length (tl (outputSerial config g)) = nat (sint (channels config)))"
proof -
  let ?n = "nat (min (uint (length_g g)) (sint (channels config)))"
  have "?n \<le> nat (uint (length_g g))"
    by (rule nat_mono) simp
  with assms have n: "?n \<le> length (data g)"
    by simp
  then have out: "outputSerial config g = 0 # take ?n (data g)"
    by (simp add: outputSerial_take MIN_macro_min)
  have cnt: "length (tl (outputSerial config g)) = ?n"
    unfolding out using n by simp
  have le: "uint (length_g g) \<le> sint (channels config) \<longrightarrow> ?n = unat (length_g g)"
    by (simp add: min_def)
  have gt: "sint (channels config) < uint (length_g g) \<longrightarrow> ?n = nat (sint (channels config))"
    by (simp add: min_def)
  from out cnt le gt show ?thesis
    by (simp only: simp_thms)
qed

section \<open>The channel values and the stored length\<close>

lemma length_g_onDmxPacket:
  "length_g (onDmxPacket config u len seq dat g) =
     (if uint u = sint (universe_cfg config) \<and> len < 512 then len else length_g g)"
  by (simp add: onDmxPacket_def Let_def)

lemma universe_sequence_onDmxPacket:
  "uint u = sint (universe_cfg config) \<Longrightarrow>
   universe (onDmxPacket config u len seq dat g) = u
   \<and> sequence (onDmxPacket config u len seq dat g) = seq"
  by (simp add: onDmxPacket_def Let_def)

lemma data_onDmxPacket:
  "uint u = sint (universe_cfg config) \<Longrightarrow>
   data (onDmxPacket config u len seq dat g) =
     fold (\<lambda>i d. d[i := dat ! i])
       [0..<unat (if len < 512 then len else length_g g)] (data g)"
  by (simp add: onDmxPacket_def Let_def)

lemma length_data_onDmxPacket:
  "length (data (onDmxPacket config u len seq dat g)) = length (data g)"
  by (simp add: onDmxPacket_def Let_def fold_update_length)

lemma fold_copy_take_drop:
  assumes "n \<le> length src" and "n \<le> length dst"
  shows "fold (\<lambda>i d. d[i := src ! i]) [0..<n] dst = take n src @ drop n dst"
proof (rule nth_equalityI)
  show "length (fold (\<lambda>i d. d[i := src ! i]) [0..<n] dst) = length (take n src @ drop n dst)"
    using assms by (simp add: fold_update_length)
next
  fix j
  assume "j < length (fold (\<lambda>i d. d[i := src ! i]) [0..<n] dst)"
  then have "j < length dst"
    by (simp add: fold_update_length)
  then show "fold (\<lambda>i d. d[i := src ! i]) [0..<n] dst ! j = (take n src @ drop n dst) ! j"
    using assms by (simp add: fold_update_nth0 nth_append)
qed

lemma word_less_512: "(len :: uint16_t) < 512 \<longleftrightarrow> unat len < 512"
  by (simp add: word_less_nat_alt)

lemma onDmxPacket_copy:
  assumes "uint u = sint (universe_cfg config)"
    and "len < 512" and "unat len \<le> length dat" and "length (data g) = 512"
  shows "data (onDmxPacket config u len seq dat g) =
           take (unat len) dat @ drop (unat len) (data g)
       \<and> universe (onDmxPacket config u len seq dat g) = u
       \<and> sequence (onDmxPacket config u len seq dat g) = seq
       \<and> length_g (onDmxPacket config u len seq dat g) = len"
proof -
  have "unat len \<le> length (data g)"
    using assms by (simp add: word_less_512)
  then show ?thesis
    using assms
    by (simp add: data_onDmxPacket fold_copy_take_drop length_g_onDmxPacket
        universe_sequence_onDmxPacket)
qed

lemma length_g_le_onDmxPacket:
  "unat (length_g g) \<le> 512 \<Longrightarrow> unat (length_g (onDmxPacket config u len seq dat g)) \<le> 512"
  by (simp add: length_g_onDmxPacket word_less_512)

lemma length_g_le_onDmxPackets:
  "unat (length_g g) \<le> 512 \<Longrightarrow> unat (length_g (onDmxPackets config ps g)) \<le> 512"
proof (induction ps arbitrary: g)
  case Nil
  then show ?case by (simp add: onDmxPackets_Nil)
next
  case (Cons p ps)
  obtain u len seq dat where p: "p = (u, len, seq, dat)"
    by (cases p) auto
  show ?case
    unfolding p onDmxPackets_Cons
    by (rule Cons.IH) (simp add: Cons.prems length_g_le_onDmxPacket)
qed

lemma length_data_onDmxPackets:
  "length (data (onDmxPackets config ps g)) = length (data g)"
proof (induction ps arbitrary: g)
  case Nil
  show ?case by (simp add: onDmxPackets_Nil)
next
  case (Cons p ps)
  obtain u len seq dat where p: "p = (u, len, seq, dat)"
    by (cases p) auto
  show ?case
    unfolding p onDmxPackets_Cons by (simp add: Cons.IH length_data_onDmxPacket)
qed

lemma length_g_setup_global: "length_g (setup_global g) = 512"
  by (simp add: setup_global_def initI2S_def Let_def)

lemma data_setup_global: "data (setup_global g) = replicate 512 0"
proof -
  have "fold (\<lambda>i d. d[i := 0]) [0..<512] (replicate 512 (0 :: uint8_t)) = replicate 512 0"
    by (rule nth_equalityI) (simp_all add: fold_update_length fold_update_nth0)
  then show ?thesis
    by (simp add: setup_global_def initI2S_def Let_def)
qed

lemma universe_sequence_setup_global:
  "universe (setup_global g) = 0 \<and> sequence (setup_global g) = 0"
  by (simp add: setup_global_def initI2S_def Let_def)

text \<open>
  What every state reached from start-up satisfies: the channel buffer has its 512 bytes,
  \<^verbatim>\<open>global.length\<close> is at most 512, and \<^verbatim>\<open>dmx_bytes\<close> keeps its
  \<^verbatim>\<open>DMX_CHANNELS + 1\<close> symbols.
\<close>

lemma reachable_buffer:
  "length (data (onDmxPackets config ps (setup_global global_boot))) = 512
   \<and> unat (length_g (onDmxPackets config ps (setup_global global_boot))) \<le> 512
   \<and> length (dmx_bytes (i2s_data (onDmxPackets config ps (setup_global global_boot)))) =
       DMX_CHANNELS + 1"
proof -
  have "unat (length_g (setup_global global_boot)) \<le> 512"
    by (simp add: length_g_setup_global)
  then have "unat (length_g (onDmxPackets config ps (setup_global global_boot))) \<le> 512"
    by (rule length_g_le_onDmxPackets)
  then show ?thesis
    by (simp add: length_data_onDmxPackets data_setup_global i2s_frame_onDmxPackets
        i2s_data_setup_global length_dmx_bytes_initI2S global_boot_def)
qed

text \<open>
  C6, as amended. \<^verbatim>\<open>global.length\<close> is 512 after \<^verbatim>\<open>setup\<close> and never exceeds 512
  after any sequence of \<^verbatim>\<open>onDmxPacket\<close> calls. A call for the configured universe with a
  packet length below 512 sets it to that packet length, whether that lowers or raises it.
\<close>

theorem length_g_at_most_512:
  "length_g (setup_global g0) = 512
   \<and> unat (length_g (onDmxPackets config ps (setup_global g0))) \<le> 512
   \<and> (uint u = sint (universe_cfg config) \<and> len < 512 \<longrightarrow>
        length_g (onDmxPacket config u len seq dat g) = len)"
proof -
  have "unat (length_g (setup_global g0)) \<le> 512"
    by (simp add: length_g_setup_global)
  then have "unat (length_g (onDmxPackets config ps (setup_global g0))) \<le> 512"
    by (rule length_g_le_onDmxPackets)
  then show ?thesis
    by (simp add: length_g_setup_global length_g_onDmxPacket)
qed

text \<open>
  C6 as amended, at a concrete input: after a packet of 100 channels, a packet of 200
  channels sets \<^verbatim>\<open>global.length\<close> to 200.
\<close>

theorem length_g_at_most_512_witness:
  "uint (0 :: uint16_t) = sint (universe_cfg config_example) \<and> (200 :: uint16_t) < 512
   \<and> length_g (onDmxPacket config_example 0 200 2 (replicate 200 0)
         (onDmxPacket config_example 0 100 1 (replicate 100 0) (setup_global global_boot)))
       = 200"
  using length_g_at_most_512 [of global_boot config_example "[]" 0 200 2 "replicate 200 0"
      "onDmxPacket config_example 0 100 1 (replicate 100 0) (setup_global global_boot)"]
  by (simp add: config_example_def)

text \<open>
  C6 as stated fails: after a packet of 100 channels, a packet of 200 channels raises
  \<^verbatim>\<open>global.length\<close> from 100 to 200.
\<close>

theorem length_g_raised_counterexample:
  "\<not> unat (length_g (onDmxPacket config_example 0 200 2 (replicate 200 0)
               (onDmxPacket config_example 0 100 1 (replicate 100 0)
                  (setup_global global_boot))))
       \<le> unat (length_g (onDmxPacket config_example 0 100 1 (replicate 100 0)
                  (setup_global global_boot)))"
  by (simp add: length_g_onDmxPacket config_example_def)

text \<open>
  C7. A packet of 100 channels (all 9) followed by a full packet of 512 channels (all 7),
  both for the configured universe: the guard \<^verbatim>\<open>if (length < 512)\<close> skips the full
  packet, so \<^verbatim>\<open>global.length\<close> stays 100 and only the first 100 of its 512 values are
  copied.
\<close>

theorem onDmxPacket_full_after_short:
  "length_g (onDmxPacket config_example 0 512 2 (replicate 512 7)
      (onDmxPacket config_example 0 100 1 (replicate 100 9)
         (setup_global global_boot))) = 100
   \<and> data (onDmxPacket config_example 0 512 2 (replicate 512 7)
      (onDmxPacket config_example 0 100 1 (replicate 100 9)
         (setup_global global_boot))) = replicate 100 7 @ replicate 412 0"
proof -
  let ?g1 = "onDmxPacket config_example 0 100 1 (replicate 100 9) (setup_global global_boot)"
  have m: "uint (0 :: uint16_t) = sint (universe_cfg config_example)"
    by (simp add: config_example_def)
  have g1: "data ?g1 = replicate 100 9 @ replicate 412 0 \<and> length_g ?g1 = 100"
    using onDmxPacket_copy [OF m, of 100 "replicate 100 9" "setup_global global_boot" 1]
    by (simp add: data_setup_global)
  have l2: "length_g (onDmxPacket config_example 0 512 2 (replicate 512 7) ?g1) = 100"
    by (simp add: length_g_onDmxPacket g1 config_example_def)
  have "data (onDmxPacket config_example 0 512 2 (replicate 512 7) ?g1) =
          take 100 (replicate 512 7) @ drop 100 (data ?g1)"
    using m by (simp add: data_onDmxPacket g1 fold_copy_take_drop)
  then show ?thesis
    using l2 by (simp add: g1)
qed

section \<open>The scheduler\<close>

lemma loop_gate_closed:
  "t_web - tic_web s < 5000 \<Longrightarrow> loop config t_web t_chk t_set pkt s = s"
  by (simp add: loop_def)

lemma loop_after_web_request:
  "t_web - now < 5000 \<Longrightarrow>
   loop config t_web t_chk t_set pkt (web_request now s) = web_request now s"
  by (simp add: loop_gate_closed web_request_def)

lemma loop_fields:
  assumes "\<not> t_web - tic_web s < 5000"
  shows "length (uart_frames (loop config t_web t_chk t_set pkt s)) =
           length (uart_frames s) + (if delay config < t_chk - tic_loop s then 1 else 0)"
    and "length (i2s_frames (loop config t_web t_chk t_set pkt s)) =
           length (i2s_frames s) + (if delay config < t_chk - tic_loop s then 1 else 0)"
    and "tic_loop (loop config t_web t_chk t_set pkt s) =
           (if delay config < t_chk - tic_loop s then t_set else tic_loop s)"
    and "tic_web (loop config t_web t_chk t_set pkt s) = tic_web s"
  using assms by (auto simp add: loop_def Let_def split: option.splits)

text \<open>
  C8, as amended. A pass of \<^verbatim>\<open>loop\<close> fires a tick (one call of each transport) exactly
  when \<^verbatim>\<open>millis() - tic_web\<close> is at least 5000 and the time since the last fired tick
  is strictly greater than \<^verbatim>\<open>config.delay\<close>; it then sets \<^verbatim>\<open>tic_loop\<close> to the current
  time. \<^verbatim>\<open>tic_web\<close> is the time of the last web request and 0 after \<^verbatim>\<open>setup\<close>, so
  nothing fires within 5000 ms of a web request nor in the first 5000 ms after start-up.
  With a delay of 25 ms, both passes outside that window and a first pass that fires, a
  second pass 10 ms later adds no transport invocation (one in all) and a second pass 30 ms
  later adds one (two in all).
\<close>

theorem loop_rate_limit:
  "length (uart_frames (loop config t_web t_chk t_set pkt s)) =
     length (uart_frames s) +
       (if \<not> t_web - tic_web s < 5000 \<and> delay config < t_chk - tic_loop s then 1 else 0)
   \<and> length (i2s_frames (loop config t_web t_chk t_set pkt s)) =
     length (i2s_frames s) +
       (if \<not> t_web - tic_web s < 5000 \<and> delay config < t_chk - tic_loop s then 1 else 0)
   \<and> tic_loop (loop config t_web t_chk t_set pkt s) =
       (if \<not> t_web - tic_web s < 5000 \<and> delay config < t_chk - tic_loop s
        then t_set else tic_loop s)
   \<and> (delay config = 25 \<and> \<not> t_web - tic_web s < 5000 \<and> 25 < t_chk - tic_loop s
        \<and> \<not> t_web' - tic_web s < 5000 \<longrightarrow>
          length (uart_frames (loop config t_web' (t_set + 10) t_set' pkt'
                    (loop config t_web t_chk t_set pkt s))) = length (uart_frames s) + 1
        \<and> length (i2s_frames (loop config t_web' (t_set + 10) t_set' pkt'
                    (loop config t_web t_chk t_set pkt s))) = length (i2s_frames s) + 1
        \<and> length (uart_frames (loop config t_web' (t_set + 30) t_set' pkt'
                    (loop config t_web t_chk t_set pkt s))) = length (uart_frames s) + 2
        \<and> length (i2s_frames (loop config t_web' (t_set + 30) t_set' pkt'
                    (loop config t_web t_chk t_set pkt s))) = length (i2s_frames s) + 2)"
proof -
  let ?s1 = "loop config t_web t_chk t_set pkt s"
  let ?fire = "\<not> t_web - tic_web s < 5000 \<and> delay config < t_chk - tic_loop s"
  have one: "length (uart_frames ?s1) = length (uart_frames s) + (if ?fire then 1 else 0)
      \<and> length (i2s_frames ?s1) = length (i2s_frames s) + (if ?fire then 1 else 0)
      \<and> tic_loop ?s1 = (if ?fire then t_set else tic_loop s)"
  proof (cases "t_web - tic_web s < 5000")
    case True
    then show ?thesis
      by (simp add: loop_gate_closed)
  next
    case False
    then show ?thesis
      by (simp add: loop_fields)
  qed
  {
    assume d: "delay config = 25" and g: "\<not> t_web - tic_web s < 5000"
      and e: "25 < t_chk - tic_loop s" and w: "\<not> t_web' - tic_web s < 5000"
    note first = loop_fields [OF g, of config t_chk t_set pkt]
    from w have w1: "\<not> t_web' - tic_web ?s1 < 5000"
      by (simp add: first(4))
    have t1: "tic_loop ?s1 = t_set"
      and n1: "length (uart_frames ?s1) = length (uart_frames s) + 1"
      and m1: "length (i2s_frames ?s1) = length (i2s_frames s) + 1"
      using d e by (simp_all add: first)
    have "length (uart_frames (loop config t_web' (t_set + 10) t_set' pkt' ?s1)) =
            length (uart_frames s) + 1"
      by (simp add: loop_fields(1) [OF w1] t1 n1 d)
    moreover have "length (i2s_frames (loop config t_web' (t_set + 10) t_set' pkt' ?s1)) =
            length (i2s_frames s) + 1"
      by (simp add: loop_fields(2) [OF w1] t1 m1 d)
    moreover have "length (uart_frames (loop config t_web' (t_set + 30) t_set' pkt' ?s1)) =
            length (uart_frames s) + 2"
      by (simp add: loop_fields(1) [OF w1] t1 n1 d)
    moreover have "length (i2s_frames (loop config t_web' (t_set + 30) t_set' pkt' ?s1)) =
            length (i2s_frames s) + 2"
      by (simp add: loop_fields(2) [OF w1] t1 m1 d)
    ultimately have
      "length (uart_frames (loop config t_web' (t_set + 10) t_set' pkt' ?s1)) =
            length (uart_frames s) + 1
       \<and> length (i2s_frames (loop config t_web' (t_set + 10) t_set' pkt' ?s1)) =
            length (i2s_frames s) + 1
       \<and> length (uart_frames (loop config t_web' (t_set + 30) t_set' pkt' ?s1)) =
            length (uart_frames s) + 2
       \<and> length (i2s_frames (loop config t_web' (t_set + 30) t_set' pkt' ?s1)) =
            length (i2s_frames s) + 2"
      by simp
  }
  with one show ?thesis
    by blast
qed

text \<open>
  C8 as stated fails: with a delay of 25 ms, a pass exactly 25 ms after the last tick
  (elapsed time equal to the delay, \<^verbatim>\<open>millis() - tic_web\<close> above 5000) fires nothing.
\<close>

theorem loop_at_delay_counterexample:
  "delay config_example \<le> 10025 - tic_loop (setup_sketch 10000)
   \<and> \<not> 10025 - tic_web (setup_sketch 10000) < 5000
   \<and> loop config_example 10025 10025 10025 None (setup_sketch 10000) = setup_sketch 10000"
  by (simp add: loop_def config_example_def setup_sketch_def)

section \<open>The theorems at concrete inputs\<close>

lemma config_example_universe: "uint (0 :: uint16_t) = sint (universe_cfg config_example)"
  by (simp add: config_example_def)

lemma length_dmx_bytes_boot:
  "length (dmx_bytes (i2s_data (setup_global global_boot))) = DMX_CHANNELS + 1"
  by (simp add: i2s_data_setup_global length_dmx_bytes_initI2S global_boot_def)

text \<open>
  C2 at a concrete input: with universe 0 configured, a packet for universe 1 leaves the
  buffer that \<^verbatim>\<open>setup\<close> built as it is.
\<close>

theorem onDmxPacket_other_universe_witness:
  "uint (1 :: uint16_t) \<noteq> sint (universe_cfg config_example)
   \<and> onDmxPacket config_example 1 3 1 [1, 2, 3] (setup_global global_boot) =
       setup_global global_boot"
  using onDmxPacket_other_universe
    [of 1 config_example 3 1 "[1, 2, 3]" "setup_global global_boot"]
  by (simp add: config_example_def)

text \<open>
  C3 at a concrete input: after \<^verbatim>\<open>setup\<close>, the packet \<open>[0x01, 0x02, 0x03]\<close> gives the
  symbol at index 1 the high byte \<open>0x80\<close> and the low byte \<open>0b11111110\<close>.
\<close>

theorem onDmxPacket_symbol_witness:
  "symbol_hi (dmx_bytes (i2s_data
      (onDmxPacket config_example 0 3 1 [1, 2, 3] (setup_global global_boot))) ! (0 + 1)) = 0x80
   \<and> symbol_lo (dmx_bytes (i2s_data
      (onDmxPacket config_example 0 3 1 [1, 2, 3] (setup_global global_boot))) ! (0 + 1)) = 0xFE"
proof -
  have "unat (3 :: uint16_t) \<le> length [1, 2, 3 :: uint8_t]"
    and "0 < unat (3 :: uint16_t)" and "0 < DMX_CHANNELS"
    by (simp_all add: DMX_CHANNELS_def)
  note w = onDmxPacket_symbol [OF config_example_universe length_dmx_bytes_boot this, of 1]
  have a: "0 \<noteq> DMX_CHANNELS - 1"
    by (simp add: DMX_CHANNELS_def)
  have b: "[1, 2, 3 :: uint8_t] ! 0 = 0x01"
    by simp
  from w a b show ?thesis
    by blast
qed

text \<open>
  C10 at a concrete input: a packet of five channels, all \<open>0x09\<close>, leaves the symbol of
  channel index 3 (frame index 4) with high byte \<open>0x90\<close>; the packet \<open>[1, 2, 3]\<close> that
  follows sets that high byte to 0.
\<close>

theorem onDmxPacket_tail_zero_witness:
  "symbol_hi (dmx_bytes (i2s_data
      (onDmxPacket config_example 0 5 1 [9, 9, 9, 9, 9] (setup_global global_boot))) ! (3 + 1))
     = 0x90
   \<and> symbol_hi (dmx_bytes (i2s_data
      (onDmxPacket config_example 0 3 2 [1, 2, 3]
        (onDmxPacket config_example 0 5 1 [9, 9, 9, 9, 9] (setup_global global_boot))))
        ! (3 + 1)) = 0"
proof -
  let ?g1 = "onDmxPacket config_example 0 5 1 [9, 9, 9, 9, 9] (setup_global global_boot)"
  have len1: "length (dmx_bytes (i2s_data ?g1)) = DMX_CHANNELS + 1"
    by (simp only: length_dmx_bytes_onDmxPacket length_dmx_bytes_boot)
  have nine: "flipByte 9 = 0x90"
    by (simp add: flipByte_def)
  have "dmx_bytes (i2s_data ?g1) ! (3 + 1) = i2s_symbol 5 [9, 9, 9, 9, 9] 3"
    using nth_dmx_bytes_onDmxPacket [OF config_example_universe, of "3 + 1"
        "setup_global global_boot" 5 1 "[9, 9, 9, 9, 9]"]
    by (simp add: length_dmx_bytes_boot DMX_CHANNELS_def)
  then have stale: "symbol_hi (dmx_bytes (i2s_data ?g1) ! (3 + 1)) = 0x90"
    by (simp add: symbol_hi_i2s_symbol nine)
  have "unat (3 :: uint16_t) \<le> 3" and "3 < DMX_CHANNELS"
    by (simp_all add: DMX_CHANNELS_def)
  note onDmxPacket_tail_zero [OF config_example_universe len1 this, of 2 "[1, 2, 3]"]
  with stale show ?thesis
    by blast
qed

text \<open>
  C5 at a concrete input: two packets after \<^verbatim>\<open>setup\<close>.
\<close>

theorem framing_bits_stable_witness:
  "length (dmx_bytes (i2s_data global_boot)) = DMX_CHANNELS + 1
   \<and> map symbol_lo (dmx_bytes (i2s_data
        (onDmxPackets config_example [(0, 3, 1, [1, 2, 3]), (0, 2, 2, [4, 5])]
           (setup_global global_boot)))) = replicate DMX_CHANNELS 0xFE @ [0xFF]"
proof -
  have h: "length (dmx_bytes (i2s_data global_boot)) = DMX_CHANNELS + 1"
    by (simp add: global_boot_def)
  from framing_bits_stable [OF h, of config_example "[(0, 3, 1, [1, 2, 3]), (0, 2, 2, [4, 5])]"] h
  show ?thesis
    by simp
qed

text \<open>
  C9 at a concrete input: a packet of three channels after \<^verbatim>\<open>setup\<close> writes all
  \<^verbatim>\<open>DMX_CHANNELS\<close> symbols, and \<^verbatim>\<open>outputI2S\<close> hands over the whole buffer.
\<close>

theorem i2s_full_frame_witness:
  "drop 1 (dmx_bytes (i2s_data
      (onDmxPacket config_example 0 3 1 [1, 2, 3] (setup_global global_boot)))) =
     map (i2s_symbol 3 [1, 2, 3]) [0..<DMX_CHANNELS]
   \<and> even (length (i2s_words (i2s_data (setup_global global_boot))))
   \<and> outputI2S (onDmxPacket config_example 0 3 1 [1, 2, 3] (setup_global global_boot)) =
       i2s_words (i2s_data
         (onDmxPacket config_example 0 3 1 [1, 2, 3] (setup_global global_boot)))"
proof -
  have e: "even (length (i2s_words (i2s_data (setup_global global_boot))))"
    using length_i2s_words_run [of config_example "[]"]
    by (simp add: onDmxPackets_Nil DMX_CHANNELS_def)
  from i2s_full_frame [OF config_example_universe length_dmx_bytes_boot, of 3 1 "[1, 2, 3]"] e
  show ?thesis
    by simp
qed

text \<open>
  C1 at a concrete input: after the packet \<open>[0x01, 0x02, 0x03]\<close>, the UART frame is
  \<open>[0x00, 0x01, 0x02, 0x03]\<close> with three channels configured and
  \<open>[0x00, 0x01, 0x02]\<close> with two.
\<close>

theorem outputSerial_frame_witness:
  "length (data (onDmxPacket config_example 0 3 1 [1, 2, 3] (setup_global global_boot))) = 512
   \<and> outputSerial config_example
       (onDmxPacket config_example 0 3 1 [1, 2, 3] (setup_global global_boot)) = [0, 1, 2, 3]
   \<and> outputSerial (config_example\<lparr>channels := 2\<rparr>)
       (onDmxPacket config_example 0 3 1 [1, 2, 3] (setup_global global_boot)) = [0, 1, 2]"
proof -
  let ?g = "onDmxPacket config_example 0 3 1 [1, 2, 3] (setup_global global_boot)"
  have g: "data ?g = [1, 2, 3] @ replicate 509 0" "length_g ?g = 3"
    using onDmxPacket_copy [OF config_example_universe, of 3 "[1, 2, 3]" "setup_global global_boot" 1]
    by (simp_all add: data_setup_global)
  have h1: "length (data ?g) = 512" and h2: "unat (length_g ?g) \<le> 512"
    by (simp_all add: g)
  have "outputSerial config_example ?g =
          0 # take (nat (min (uint (length_g ?g)) (sint (channels config_example)))) (data ?g)"
    using outputSerial_frame [OF h1 h2, of config_example] by blast
  then have o1: "outputSerial config_example ?g = [0, 1, 2, 3]"
    unfolding g by (simp add: config_example_def)
  have "outputSerial (config_example\<lparr>channels := 2\<rparr>) ?g =
          0 # take (nat (min (uint (length_g ?g))
                (sint (channels (config_example\<lparr>channels := 2\<rparr>))))) (data ?g)"
    using outputSerial_frame [OF h1 h2, of "config_example\<lparr>channels := 2\<rparr>"] by blast
  then have o2: "outputSerial (config_example\<lparr>channels := 2\<rparr>) ?g = [0, 1, 2]"
    unfolding g by simp
  from h1 o1 o2 show ?thesis
    by blast
qed

text \<open>
  C8 at a concrete input, with a delay of 25 ms. When \<^verbatim>\<open>setup\<close> ends at 10000 ms, a
  pass at 10030 ms fires, a second pass at 10040 ms does not, a second pass at 10060 ms
  does. When \<^verbatim>\<open>setup\<close> ends at 1000 ms, a pass at 2000 ms fires nothing, although
  1000 ms have passed since \<^verbatim>\<open>tic_loop\<close> and no web request was ever handled:
  \<^verbatim>\<open>tic_web\<close> is still 0.
\<close>

theorem loop_rate_limit_witness:
  "\<not> 10030 - tic_web (setup_sketch 10000) < 5000
   \<and> length (uart_frames (loop config_example 10030 10030 10030 None (setup_sketch 10000))) = 1
   \<and> length (uart_frames (loop config_example 10040 10040 10040 None
        (loop config_example 10030 10030 10030 None (setup_sketch 10000)))) = 1
   \<and> length (uart_frames (loop config_example 10060 10060 10060 None
        (loop config_example 10030 10030 10030 None (setup_sketch 10000)))) = 2
   \<and> length (i2s_frames (loop config_example 10040 10040 10040 None
        (loop config_example 10030 10030 10030 None (setup_sketch 10000)))) = 1
   \<and> length (i2s_frames (loop config_example 10060 10060 10060 None
        (loop config_example 10030 10030 10030 None (setup_sketch 10000)))) = 2
   \<and> delay config_example < 2000 - tic_loop (setup_sketch 1000)
   \<and> length (uart_frames (loop config_example 2000 2000 2000 None (setup_sketch 1000))) = 0
   \<and> length (i2s_frames (loop config_example 2000 2000 2000 None (setup_sketch 1000))) = 0"
proof -
  have h: "\<not> 10030 - tic_web (setup_sketch 10000) < 5000"
    and h1: "\<not> 10040 - tic_web (setup_sketch 10000) < 5000"
    and h2: "\<not> 10060 - tic_web (setup_sketch 10000) < 5000"
    and c: "2000 - tic_web (setup_sketch 1000) < 5000"
    and e: "delay config_example < 2000 - tic_loop (setup_sketch 1000)"
    by (simp_all add: setup_sketch_def config_example_def)
  have late: "length (uart_frames (loop config_example 10030 10030 10030 None
          (setup_sketch 10000))) = 1
      \<and> length (uart_frames (loop config_example 10040 10040 10040 None
          (loop config_example 10030 10030 10030 None (setup_sketch 10000)))) = 1
      \<and> length (uart_frames (loop config_example 10060 10060 10060 None
          (loop config_example 10030 10030 10030 None (setup_sketch 10000)))) = 2
      \<and> length (i2s_frames (loop config_example 10040 10040 10040 None
          (loop config_example 10030 10030 10030 None (setup_sketch 10000)))) = 1
      \<and> length (i2s_frames (loop config_example 10060 10060 10060 None
          (loop config_example 10030 10030 10030 None (setup_sketch 10000)))) = 2"
    using loop_rate_limit [of config_example 10030 10030 10030 None "setup_sketch 10000"
        10040 10040 None]
      loop_rate_limit [of config_example 10030 10030 10030 None "setup_sketch 10000"
        10060 10060 None] h h1 h2
    by (simp add: config_example_def setup_sketch_def)
  have early: "length (uart_frames (loop config_example 2000 2000 2000 None
          (setup_sketch 1000))) = 0
      \<and> length (i2s_frames (loop config_example 2000 2000 2000 None
          (setup_sketch 1000))) = 0"
    using loop_rate_limit [of config_example 2000 2000 2000 None "setup_sketch 1000"] c
    by (simp add: setup_sketch_def)
  from h e late early show ?thesis
    by blast
qed

end
